theory Spec2Isabelle
  imports Main "HOL-Library.AList"
begin

section \<open>Values, strings and exceptions of the Python program\<close>

text \<open>
  The server (\<^verbatim>\<open>src/ens_mcp_server.py\<close>) handles values that come out of \<^verbatim>\<open>json.loads\<close>
  and go into \<^verbatim>\<open>json.dumps\<close>. A dict is an association list read with \<open>map_of\<close>; the
  order of the pairs is the insertion order of the Python dict. JSON numbers are the
  integers (Python's unbounded \<^verbatim>\<open>int\<close>); floats are outside this model.
\<close>

datatype json =
    JNull
  | JBool bool
  | JInt int
  | JStr string
  | JList "json list"
  | JObj "(string \<times> json) list"

text \<open>
  A Python \<^verbatim>\<open>str\<close> is a list of code points; the model covers the code points below 256.
  \<^verbatim>\<open>str.strip()\<close> removes leading and trailing whitespace, which below 256 is
  9..13, 28..32, 133 and 160; \<^verbatim>\<open>str.lower()\<close> maps A..Z and the Latin-1 capitals
  192..214, 216..222 to the letter 32 places further on.
\<close>

definition is_space :: "char \<Rightarrow> bool" where
  "is_space c =
     (let n = (of_char c :: nat)
      in (9 \<le> n \<and> n \<le> 13) \<or> (28 \<le> n \<and> n \<le> 32) \<or> n = 133 \<or> n = 160)"

definition is_upper :: "char \<Rightarrow> bool" where
  "is_upper c =
     (let n = (of_char c :: nat)
      in (65 \<le> n \<and> n \<le> 90) \<or> (192 \<le> n \<and> n \<le> 214) \<or> (216 \<le> n \<and> n \<le> 222))"

definition lower_char :: "char \<Rightarrow> char" where
  "lower_char c = (if is_upper c then char_of ((of_char c :: nat) + 32) else c)"

definition strip :: "string \<Rightarrow> string" where
  "strip s = rev (dropWhile is_space (rev (dropWhile is_space s)))"

definition lower :: "string \<Rightarrow> string" where
  "lower s = map lower_char s"

text \<open>
  Exceptions are values. Every exception of the model is an instance of Python's
  \<^verbatim>\<open>Exception\<close>; \<open>ENSException\<close> stands for \<^verbatim>\<open>ens.exceptions.ENSException\<close> and its
  subclasses, \<open>OtherException\<close> for any other class a collaborator raises. The string is
  \<^verbatim>\<open>str(e)\<close>, except for \<open>KeyError\<close>, which carries the missing key and prints its
  \<^verbatim>\<open>repr\<close>. \<open>JSONDecodeError\<close> is \<^verbatim>\<open>json.JSONDecodeError\<close>; \<open>RecursionError\<close> and
  \<open>ValueError\<close> are the other exceptions \<^verbatim>\<open>json.loads\<close> raises (on input nested too
  deeply, on an integer of too many digits), and \<open>ValueError\<close> is the plain class, not its
  subclass \<^verbatim>\<open>JSONDecodeError\<close>.
\<close>

datatype py_exn =
    ENSException string
  | KeyError json
  | AttributeError string
  | TypeError string
  | ConnectionError string
  | JSONDecodeError string
  | RecursionError string
  | ValueError string
  | OtherException string

subsection \<open>The Python runtime and the json module\<close>

text \<open>
  Library functions the server calls are parameters: \<open>loads\<close> is \<^verbatim>\<open>json.loads\<close>, which
  returns the parsed value or raises, a \<^verbatim>\<open>JSONDecodeError\<close> or another exception;
  \<open>dumps\<close> is \<^verbatim>\<open>json.dumps(x)\<close>,
  \<open>dumps_indent\<close> is \<^verbatim>\<open>json.dumps(x, indent=2)\<close>, \<open>repr\<close> is Python's \<^verbatim>\<open>repr\<close>, and
  \<open>utcnow_isoformat\<close> is the reading of \<^verbatim>\<open>datetime.utcnow().isoformat()\<close>.
\<close>

record runtime =
  loads :: "string \<Rightarrow> py_exn + json"
  dumps :: "json \<Rightarrow> string"
  dumps_indent :: "json \<Rightarrow> string"
  repr :: "json \<Rightarrow> string"
  utcnow_isoformat :: string

text \<open>\<^verbatim>\<open>str(x)\<close>, also what an f-string prints: a string is itself, anything else its repr.\<close>

fun py_str :: "runtime \<Rightarrow> json \<Rightarrow> string" where
  "py_str rt (JStr s) = s"
| "py_str rt v = repr rt v"

fun exn_str :: "runtime \<Rightarrow> py_exn \<Rightarrow> string" where
  "exn_str rt (ENSException m) = m"
| "exn_str rt (KeyError k) = repr rt k"
| "exn_str rt (AttributeError m) = m"
| "exn_str rt (TypeError m) = m"
| "exn_str rt (ConnectionError m) = m"
| "exn_str rt (JSONDecodeError m) = m"
| "exn_str rt (RecursionError m) = m"
| "exn_str rt (ValueError m) = m"
| "exn_str rt (OtherException m) = m"

fun py_type_name :: "json \<Rightarrow> string" where
  "py_type_name JNull = ''NoneType''"
| "py_type_name (JBool b) = ''bool''"
| "py_type_name (JInt i) = ''int''"
| "py_type_name (JStr s) = ''str''"
| "py_type_name (JList xs) = ''list''"
| "py_type_name (JObj kvs) = ''dict''"

text \<open>A string between single quotes, as Python's error messages print a name.\<close>

definition quoted :: "string \<Rightarrow> string" where
  "quoted s = CHR 0x27 # s @ [CHR 0x27]"

definition no_attribute :: "json \<Rightarrow> string \<Rightarrow> py_exn" where
  "no_attribute v a =
     AttributeError (quoted (py_type_name v) @ '' object has no attribute '' @ quoted a)"

text \<open>\<^verbatim>\<open>x.strip().lower()\<close> and \<^verbatim>\<open>x.strip()\<close>: only a \<^verbatim>\<open>str\<close> has the method.\<close>

fun strip_lower :: "json \<Rightarrow> py_exn + string" where
  "strip_lower (JStr s) = Inr (lower (strip s))"
| "strip_lower v = Inl (no_attribute v ''strip'')"

fun strip_only :: "json \<Rightarrow> py_exn + string" where
  "strip_only (JStr s) = Inr (strip s)"
| "strip_only v = Inl (no_attribute v ''strip'')"

text \<open>\<^verbatim>\<open>d.get(k, default)\<close>: only a dict has the method.\<close>

fun py_get :: "json \<Rightarrow> string \<Rightarrow> json \<Rightarrow> py_exn + json" where
  "py_get (JObj kvs) k d = Inr (case map_of kvs k of None \<Rightarrow> d | Some v \<Rightarrow> v)"
| "py_get v k d = Inl (no_attribute v ''get'')"

text \<open>\<^verbatim>\<open>d[k]\<close> with a string key: a dict raises \<^verbatim>\<open>KeyError\<close> when the key is missing,
  every other value raises \<^verbatim>\<open>TypeError\<close>.\<close>

fun py_getitem :: "json \<Rightarrow> string \<Rightarrow> py_exn + json" where
  "py_getitem (JObj kvs) k =
     (case map_of kvs k of None \<Rightarrow> Inl (KeyError (JStr k)) | Some v \<Rightarrow> Inr v)"
| "py_getitem (JList xs) k = Inl (TypeError ''list indices must be integers or slices, not str'')"
| "py_getitem (JStr s) k =
     Inl (TypeError (''string indices must be integers, not '' @ quoted ''str''))"
| "py_getitem v k =
     Inl (TypeError (quoted (py_type_name v) @ '' object is not subscriptable''))"

section \<open>The collaborators\<close>

text \<open>
  \<^verbatim>\<open>self.w3\<close> and \<^verbatim>\<open>self.ens\<close> are objects of the web3 and ens libraries. Each method
  the server calls is a function of its arguments that returns a value or raises. An
  address or a name is a string; \<open>None\<close> is Python's \<^verbatim>\<open>None\<close>. \<open>ens_address\<close> takes
  the name and, when the server passes one, the \<^verbatim>\<open>coin_type\<close> keyword argument.
  \<open>ens_resolver\<close> returns a contract object, of which the server reads the attribute
  \<^verbatim>\<open>address\<close> when it has one. Since the collaborators return strings or \<^verbatim>\<open>None\<close>,
  every result dict can be serialised: \<^verbatim>\<open>json.dumps\<close> is total in this model.
\<close>

datatype contract = Contract "string option"

record web3_client =
  is_connected :: bool
  is_address :: "string \<Rightarrow> bool"
  to_checksum_address :: "string \<Rightarrow> py_exn + string"

record ens_client =
  ens_address :: "string \<Rightarrow> json option \<Rightarrow> py_exn + string option"
  ens_name_of :: "string \<Rightarrow> py_exn + string option"
  ens_get_text :: "string \<Rightarrow> string \<Rightarrow> py_exn + string option"
  ens_owner :: "string \<Rightarrow> py_exn + string option"
  ens_resolver :: "string \<Rightarrow> py_exn + contract option"

text \<open>The calls made on the collaborators, in the order they are made.\<close>

datatype call =
    IsAddress string
  | ToChecksumAddress string
  | EnsAddress string "json option"
  | EnsName string
  | EnsGetText string string
  | EnsOwner string
  | EnsResolver string

record server =
  rpc_url :: string
  w3 :: "web3_client option"
  ens :: "ens_client option"

text \<open>
  \<^verbatim>\<open>ENSMCPServer.__init__\<close> with \<^verbatim>\<open>initialize_web3\<close>: the two library constructors are
  parameters. The constructor raises unless both objects were made and the node answers.
\<close>

record libraries =
  http_provider :: "string \<Rightarrow> py_exn + web3_client"
  from_web3 :: "web3_client \<Rightarrow> py_exn + ens_client"

definition initialize_web3 :: "libraries \<Rightarrow> string \<Rightarrow> py_exn + server" where
  "initialize_web3 lib url =
     (case http_provider lib url of
        Inl e \<Rightarrow> Inl e
      | Inr w \<Rightarrow>
          if \<not> is_connected w then Inl (ConnectionError ''Could not connect to Ethereum node'')
          else (case from_web3 lib w of
                  Inl e \<Rightarrow> Inl e
                | Inr en \<Rightarrow> Inr \<lparr>rpc_url = url, w3 = Some w, ens = Some en\<rparr>))"

text \<open>Truthiness of an optional string: \<^verbatim>\<open>None\<close> and the empty string are false.\<close>

definition truthy :: "string option \<Rightarrow> bool" where
  "truthy v = (case v of None \<Rightarrow> False | Some s \<Rightarrow> s \<noteq> [])"

definition opt_json :: "string option \<Rightarrow> json" where
  "opt_json v = (case v of None \<Rightarrow> JNull | Some s \<Rightarrow> JStr s)"

section \<open>The four domain operations\<close>

text \<open>
  Each operation returns its result dict together with the calls it made on the
  collaborators. Arguments are JSON values, as \<open>handle_tool_call\<close> passes them on
  unchecked. Assigning \<^verbatim>\<open>d[k] = v\<close> is \<open>AList.update\<close>: the value is replaced in place
  or the pair appended.
\<close>

fun is_ens_exception :: "py_exn \<Rightarrow> bool" where
  "is_ens_exception (ENSException m) = True"
| "is_ens_exception e = False"

definition resolve_failure :: "string \<Rightarrow> json \<Rightarrow> json \<Rightarrow> json" where
  "resolve_failure msg ens_name coin_type =
     JObj [(''success'', JBool False), (''error'', JStr msg),
           (''ens_name'', ens_name), (''coin_type'', coin_type)]"

text \<open>The two \<^verbatim>\<open>except\<close> clauses of \<^verbatim>\<open>resolve_ens_name\<close>, tried in order.\<close>

definition resolve_except :: "runtime \<Rightarrow> py_exn \<Rightarrow> json \<Rightarrow> json \<Rightarrow> json" where
  "resolve_except rt ex ens_name coin_type =
     (if is_ens_exception ex
      then resolve_failure (''ENS error: '' @ exn_str rt ex) ens_name coin_type
      else resolve_failure (''Unexpected error: '' @ exn_str rt ex) ens_name coin_type)"

definition resolve_ens_name :: "runtime \<Rightarrow> server \<Rightarrow> json \<Rightarrow> json \<Rightarrow> json \<times> call list" where
  "resolve_ens_name rt self ens_name coin_type =
     (case ens self of
        None \<Rightarrow> (resolve_failure ''ENS not initialized'' ens_name coin_type, [])
      | Some e \<Rightarrow>
          (case strip_lower ens_name of
             Inl ex \<Rightarrow> (resolve_except rt ex ens_name coin_type, [])
           | Inr n \<Rightarrow>
               (let kw = (if coin_type = JInt 60 then None else Some coin_type)
                in case ens_address e n kw of
                     Inl ex \<Rightarrow> (resolve_except rt ex (JStr n) coin_type, [EnsAddress n kw])
                   | Inr a \<Rightarrow>
                       if \<not> truthy a
                       then (resolve_failure (''No address found for ENS name: '' @ n)
                               (JStr n) coin_type, [EnsAddress n kw])
                       else (JObj [(''success'', JBool True), (''ens_name'', JStr n),
                                   (''address'', opt_json a), (''coin_type'', coin_type),
                                   (''timestamp'', JStr (utcnow_isoformat rt))],
                             [EnsAddress n kw]))))"

definition reverse_failure :: "string \<Rightarrow> json \<Rightarrow> json" where
  "reverse_failure msg address =
     JObj [(''success'', JBool False), (''error'', JStr msg), (''address'', address)]"

definition reverse_except :: "runtime \<Rightarrow> py_exn \<Rightarrow> json \<Rightarrow> json" where
  "reverse_except rt ex address =
     reverse_failure (''Error during reverse resolution: '' @ exn_str rt ex) address"

definition reverse_resolve_address :: "runtime \<Rightarrow> server \<Rightarrow> json \<Rightarrow> json \<times> call list" where
  "reverse_resolve_address rt self address =
     (case w3 self of
        None \<Rightarrow> (reverse_failure ''Web3 or ENS not initialized'' address, [])
      | Some w \<Rightarrow>
     (case ens self of
        None \<Rightarrow> (reverse_failure ''Web3 or ENS not initialized'' address, [])
      | Some e \<Rightarrow>
     (case strip_only address of
        Inl ex \<Rightarrow> (reverse_except rt ex address, [])
      | Inr a \<Rightarrow>
          if \<not> is_address w a
          then (reverse_failure (''Invalid Ethereum address format: '' @ a) (JStr a),
                [IsAddress a])
          else
            (case to_checksum_address w a of
               Inl ex \<Rightarrow> (reverse_except rt ex (JStr a), [IsAddress a, ToChecksumAddress a])
             | Inr c \<Rightarrow>
                 (case ens_name_of e c of
                    Inl ex \<Rightarrow>
                      (reverse_except rt ex (JStr a),
                       [IsAddress a, ToChecksumAddress a, EnsName c])
                  | Inr nm \<Rightarrow>
                      if \<not> truthy nm
                      then (reverse_failure (''No ENS name found for address: '' @ c) (JStr c),
                            [IsAddress a, ToChecksumAddress a, EnsName c])
                      else (JObj [(''success'', JBool True), (''address'', JStr c),
                                  (''ens_name'', opt_json nm),
                                  (''timestamp'', JStr (utcnow_isoformat rt))],
                            [IsAddress a, ToChecksumAddress a, EnsName c]))))))"

definition text_failure :: "string \<Rightarrow> json \<Rightarrow> json \<Rightarrow> json" where
  "text_failure msg ens_name key =
     JObj [(''success'', JBool False), (''error'', JStr msg),
           (''ens_name'', ens_name), (''key'', key)]"

definition text_except :: "runtime \<Rightarrow> py_exn \<Rightarrow> json \<Rightarrow> json \<Rightarrow> json" where
  "text_except rt ex ens_name key =
     text_failure (''Error getting text record: '' @ exn_str rt ex) ens_name key"

definition get_ens_text_record :: "runtime \<Rightarrow> server \<Rightarrow> json \<Rightarrow> json \<Rightarrow> json \<times> call list" where
  "get_ens_text_record rt self ens_name key =
     (case ens self of
        None \<Rightarrow> (text_failure ''ENS not initialized'' ens_name key, [])
      | Some e \<Rightarrow>
          (case strip_lower ens_name of
             Inl ex \<Rightarrow> (text_except rt ex ens_name key, [])
           | Inr n \<Rightarrow>
               (case strip_lower key of
                  Inl ex \<Rightarrow> (text_except rt ex (JStr n) key, [])
                | Inr k \<Rightarrow>
                    (case ens_get_text e n k of
                       Inl ex \<Rightarrow> (text_except rt ex (JStr n) (JStr k), [EnsGetText n k])
                     | Inr v \<Rightarrow>
                         (JObj [(''success'', JBool True), (''ens_name'', JStr n),
                                (''key'', JStr k), (''value'', opt_json v),
                                (''timestamp'', JStr (utcnow_isoformat rt))],
                          [EnsGetText n k])))))"

definition info_failure :: "string \<Rightarrow> json \<Rightarrow> json" where
  "info_failure msg ens_name =
     JObj [(''success'', JBool False), (''error'', JStr msg), (''ens_name'', ens_name)]"

definition common_keys :: "string list" where
  "common_keys =
     [''url'', ''email'', ''twitter'', ''github'', ''discord'', ''telegram'', ''description'']"

text \<open>\<^verbatim>\<open>resolver.address if resolver and hasattr(resolver, 'address') else None\<close>\<close>

fun resolver_address :: "contract option \<Rightarrow> json" where
  "resolver_address None = JNull"
| "resolver_address (Some (Contract a)) = opt_json a"

text \<open>The loop over \<^verbatim>\<open>common_keys\<close>: a value that is false or a lookup that raises adds
  nothing to \<^verbatim>\<open>text_records\<close>.\<close>

fun text_records_loop ::
  "ens_client \<Rightarrow> string \<Rightarrow> string list \<Rightarrow> (string \<times> json) list \<Rightarrow> (string \<times> json) list" where
  "text_records_loop e n [] text_records = text_records"
| "text_records_loop e n (key # keys) text_records =
     text_records_loop e n keys
       (case ens_get_text e n key of
          Inl ex \<Rightarrow> text_records
        | Inr v \<Rightarrow> if truthy v then AList.update key (opt_json v) text_records
                   else text_records)"

definition get_ens_info :: "runtime \<Rightarrow> server \<Rightarrow> json \<Rightarrow> json \<times> call list" where
  "get_ens_info rt self ens_name =
     (case ens self of
        None \<Rightarrow> (info_failure ''ENS not initialized'' ens_name, [])
      | Some e \<Rightarrow>
          (case strip_lower ens_name of
             Inl ex \<Rightarrow> (info_failure (''Error getting ENS info: '' @ exn_str rt ex) ens_name, [])
           | Inr n \<Rightarrow>
               (let info0 = [(''success'', JBool True), (''ens_name'', JStr n),
                             (''timestamp'', JStr (utcnow_isoformat rt))];
                    info1 = AList.update ''address''
                              (case ens_address e n None of
                                 Inl ex \<Rightarrow> JNull | Inr a \<Rightarrow> opt_json a) info0;
                    info2 = AList.update ''owner''
                              (case ens_owner e n of
                                 Inl ex \<Rightarrow> JNull | Inr a \<Rightarrow> opt_json a) info1;
                    info3 = AList.update ''resolver''
                              (case ens_resolver e n of
                                 Inl ex \<Rightarrow> JNull | Inr r \<Rightarrow> resolver_address r) info2;
                    text_records = text_records_loop e n common_keys [];
                    info4 = AList.update ''text_records'' (JObj text_records) info3
                in (JObj info4,
                    [EnsAddress n None, EnsOwner n, EnsResolver n]
                      @ map (EnsGetText n) common_keys))))"

section \<open>The router\<close>

definition tool_call_except :: "runtime \<Rightarrow> py_exn \<Rightarrow> json \<times> call list" where
  "tool_call_except rt ex =
     (JObj [(''success'', JBool False),
            (''error'', JStr (''Error handling tool call: '' @ exn_str rt ex))], [])"

definition handle_tool_call :: "runtime \<Rightarrow> server \<Rightarrow> json \<Rightarrow> json \<Rightarrow> json \<times> call list" where
  "handle_tool_call rt self tool_name arguments =
     (if tool_name = JStr ''resolve_ens_name'' then
        (case py_getitem arguments ''ens_name'' of
           Inl ex \<Rightarrow> tool_call_except rt ex
         | Inr n \<Rightarrow>
             (case py_get arguments ''coin_type'' (JInt 60) of
                Inl ex \<Rightarrow> tool_call_except rt ex
              | Inr c \<Rightarrow> resolve_ens_name rt self n c))
      else if tool_name = JStr ''reverse_resolve_address'' then
        (case py_getitem arguments ''address'' of
           Inl ex \<Rightarrow> tool_call_except rt ex
         | Inr a \<Rightarrow> reverse_resolve_address rt self a)
      else if tool_name = JStr ''get_ens_text_record'' then
        (case py_getitem arguments ''ens_name'' of
           Inl ex \<Rightarrow> tool_call_except rt ex
         | Inr n \<Rightarrow>
             (case py_getitem arguments ''key'' of
                Inl ex \<Rightarrow> tool_call_except rt ex
              | Inr k \<Rightarrow> get_ens_text_record rt self n k))
      else if tool_name = JStr ''get_ens_info'' then
        (case py_getitem arguments ''ens_name'' of
           Inl ex \<Rightarrow> tool_call_except rt ex
         | Inr n \<Rightarrow> get_ens_info rt self n)
      else
        (JObj [(''success'', JBool False),
               (''error'', JStr (''Unknown tool: '' @ py_str rt tool_name))], []))"

text \<open>\<^verbatim>\<open>get_server_info\<close> and \<^verbatim>\<open>get_available_tools\<close> return constants.\<close>

definition get_server_info :: json where
  "get_server_info =
     JObj [(''name'', JStr ''ENS MCP Server''),
           (''version'', JStr ''1.0.0''),
           (''description'',
              JStr ''A Model Context Protocol server for Ethereum Name Service resolution''),
           (''author'', JStr ''ENS MCP Team''),
           (''capabilities'',
              JObj [(''tools'', JBool True), (''resources'', JBool False),
                    (''prompts'', JBool False)])]"

definition get_available_tools :: json where
  "get_available_tools =
     JList
      [JObj [(''name'', JStr ''resolve_ens_name''),
             (''description'', JStr ''Resolve an ENS name to an Ethereum address''),
             (''inputSchema'',
                JObj [(''type'', JStr ''object''),
                      (''properties'',
                         JObj [(''ens_name'',
                                  JObj [(''type'', JStr ''string''),
                                        (''description'',
                                           JStr (''The ENS name to resolve (e.g., ''
                                                 @ quoted ''vitalik.eth'' @ '')''))]),
                               (''coin_type'',
                                  JObj [(''type'', JStr ''integer''),
                                        (''description'',
                                           JStr ''Optional coin type for multi-chain address resolution (default: 60 for ETH)''),
                                        (''default'', JInt 60)])]),
                      (''required'', JList [JStr ''ens_name''])])],
       JObj [(''name'', JStr ''reverse_resolve_address''),
             (''description'',
                JStr ''Reverse resolve an Ethereum address to find its primary ENS name''),
             (''inputSchema'',
                JObj [(''type'', JStr ''object''),
                      (''properties'',
                         JObj [(''address'',
                                  JObj [(''type'', JStr ''string''),
                                        (''description'',
                                           JStr (''The Ethereum address to reverse resolve (e.g., ''
                                                 @ quoted ''0x...'' @ '')''))])]),
                      (''required'', JList [JStr ''address''])])],
       JObj [(''name'', JStr ''get_ens_text_record''),
             (''description'', JStr ''Get a text record from an ENS name''),
             (''inputSchema'',
                JObj [(''type'', JStr ''object''),
                      (''properties'',
                         JObj [(''ens_name'',
                                  JObj [(''type'', JStr ''string''),
                                        (''description'', JStr ''The ENS name to query'')]),
                               (''key'',
                                  JObj [(''type'', JStr ''string''),
                                        (''description'',
                                           JStr (''The text record key (e.g., ''
                                                 @ quoted ''url'' @ '', '' @ quoted ''email''
                                                 @ '', '' @ quoted ''twitter'' @ '', ''
                                                 @ quoted ''github'' @ '')''))])]),
                      (''required'', JList [JStr ''ens_name'', JStr ''key''])])],
       JObj [(''name'', JStr ''get_ens_info''),
             (''description'', JStr ''Get comprehensive information about an ENS name''),
             (''inputSchema'',
                JObj [(''type'', JStr ''object''),
                      (''properties'',
                         JObj [(''ens_name'',
                                  JObj [(''type'', JStr ''string''),
                                        (''description'',
                                           JStr ''The ENS name to get information for'')])]),
                      (''required'', JList [JStr ''ens_name''])])]]"

text \<open>Sequencing of steps that may raise: the first exception ends the block.\<close>

definition and_then :: "py_exn + 'a \<Rightarrow> ('a \<Rightarrow> py_exn + 'b) \<Rightarrow> py_exn + 'b" where
  "and_then m f = (case m of Inl ex \<Rightarrow> Inl ex | Inr x \<Rightarrow> f x)"

text \<open>The \<^verbatim>\<open>try\<close> block of \<^verbatim>\<open>handle_message\<close>. \<open>Inl\<close> is an exception raised in it.\<close>

definition handle_message_body ::
  "runtime \<Rightarrow> server \<Rightarrow> json \<Rightarrow> py_exn + (json \<times> call list)" where
  "handle_message_body rt self message =
     and_then (py_get message ''method'' JNull) (\<lambda>method.
       if method = JStr ''initialize'' then
         and_then (py_get message ''id'' JNull) (\<lambda>i.
           Inr (JObj [(''id'', i),
                      (''result'',
                         JObj [(''protocolVersion'', JStr ''2024-11-05''),
                               (''capabilities'',
                                  JObj [(''tools'', JObj [(''listChanged'', JBool True)])]),
                               (''serverInfo'', get_server_info)])], []))
       else if method = JStr ''tools/list'' then
         and_then (py_get message ''id'' JNull) (\<lambda>i.
           Inr (JObj [(''id'', i),
                      (''result'', JObj [(''tools'', get_available_tools)])], []))
       else if method = JStr ''tools/call'' then
         and_then (py_get message ''params'' (JObj [])) (\<lambda>params.
         and_then (py_get params ''name'' JNull) (\<lambda>tool_name.
         and_then (py_get params ''arguments'' (JObj [])) (\<lambda>arguments.
           case handle_tool_call rt self tool_name arguments of
             (result, calls) \<Rightarrow>
               and_then (py_get message ''id'' JNull) (\<lambda>i.
                 Inr (JObj [(''id'', i),
                            (''result'',
                               JObj [(''content'',
                                        JList [JObj [(''type'', JStr ''text''),
                                                     (''text'',
                                                        JStr (dumps_indent rt result))]])])],
                      calls)))))
       else
         and_then (py_get message ''id'' JNull) (\<lambda>i.
           Inr (JObj [(''id'', i),
                      (''error'',
                         JObj [(''code'', JInt (- 32601)),
                               (''message'',
                                  JStr (''Method not found: '' @ py_str rt method))])], [])))"

text \<open>\<^verbatim>\<open>handle_message\<close>: the \<^verbatim>\<open>except Exception\<close> clause builds the internal-error
  response; \<^verbatim>\<open>message.get("id")\<close> in that clause can itself raise, and then the exception
  leaves the function.\<close>

definition handle_message ::
  "runtime \<Rightarrow> server \<Rightarrow> json \<Rightarrow> py_exn + (json \<times> call list)" where
  "handle_message rt self message =
     (case handle_message_body rt self message of
        Inr r \<Rightarrow> Inr r
      | Inl ex \<Rightarrow>
          and_then (py_get message ''id'' JNull) (\<lambda>i.
            Inr (JObj [(''id'', i),
                       (''error'',
                          JObj [(''code'', JInt (- 32603)),
                                (''message'',
                                   JStr (''Internal error: '' @ exn_str rt ex))])], [])))"

section \<open>The message loop\<close>

definition parse_error_response :: json where
  "parse_error_response =
     JObj [(''error'', JObj [(''code'', JInt (- 32700)), (''message'', JStr ''Parse error'')])]"

text \<open>
  \<^verbatim>\<open>run_stdio\<close>: standard input is the list of the lines still to be read, and
  \<^verbatim>\<open>readline\<close> returns the empty string when none is left. The result is the list of the
  lines printed. The inner \<^verbatim>\<open>except json.JSONDecodeError\<close> prints the parse-error
  response and the loop goes on. Any other exception, raised by \<^verbatim>\<open>json.loads\<close> or leaving
  \<^verbatim>\<open>handle_message\<close>, reaches the outer \<^verbatim>\<open>except Exception\<close>, which logs it: the loop is
  over and nothing is printed for the line.
\<close>

fun is_json_decode_error :: "py_exn \<Rightarrow> bool" where
  "is_json_decode_error (JSONDecodeError m) = True"
| "is_json_decode_error e = False"

fun run_stdio :: "runtime \<Rightarrow> server \<Rightarrow> string list \<Rightarrow> string list" where
  "run_stdio rt self [] = []"
| "run_stdio rt self (line # rest) =
     (if line = [] then []
      else
        (case loads rt (strip line) of
           Inl ex \<Rightarrow>
             if is_json_decode_error ex
             then dumps rt parse_error_response # run_stdio rt self rest
             else []
         | Inr message \<Rightarrow>
             (case handle_message rt self message of
                Inl ex \<Rightarrow> []
              | Inr (response, calls) \<Rightarrow> dumps rt response # run_stdio rt self rest)))"

section \<open>Properties stated about result dicts\<close>

text \<open>
  The invariant of a result dict: either \<^verbatim>\<open>success\<close> is true, there is no \<^verbatim>\<open>error\<close> key
  and there is a \<^verbatim>\<open>timestamp\<close> key, or \<^verbatim>\<open>success\<close> is false, there is an \<^verbatim>\<open>error\<close> key
  and there is no \<^verbatim>\<open>timestamp\<close> key.
\<close>

definition envelope_invariant :: "json \<Rightarrow> bool" where
  "envelope_invariant v =
     (case v of
        JObj kvs \<Rightarrow>
          (map_of kvs ''success'' = Some (JBool True) \<and> map_of kvs ''error'' = None
             \<and> map_of kvs ''timestamp'' \<noteq> None)
          \<or> (map_of kvs ''success'' = Some (JBool False) \<and> map_of kvs ''error'' \<noteq> None
             \<and> map_of kvs ''timestamp'' = None)
      | _ \<Rightarrow> False)"

text \<open>The keys \<^verbatim>\<open>handle_tool_call\<close> subscripts \<^verbatim>\<open>arguments\<close> with, per tool, in the order
  of evaluation. They are the \<^verbatim>\<open>required\<close> lists of \<^verbatim>\<open>get_available_tools\<close>.\<close>

definition required_keys :: "string \<Rightarrow> string list" where
  "required_keys tool =
     (if tool = ''resolve_ens_name'' then [''ens_name'']
      else if tool = ''reverse_resolve_address'' then [''address'']
      else if tool = ''get_ens_text_record'' then [''ens_name'', ''key'']
      else if tool = ''get_ens_info'' then [''ens_name'']
      else [])"

definition known_tools :: "string list" where
  "known_tools =
     [''resolve_ens_name'', ''reverse_resolve_address'', ''get_ens_text_record'',
      ''get_ens_info'']"

section \<open>A concrete server, for evaluating the definitions\<close>

definition demo_repr :: "json \<Rightarrow> string" where
  "demo_repr v = (case v of JStr s \<Rightarrow> quoted s | JNull \<Rightarrow> ''None'' | _ \<Rightarrow> py_type_name v)"

text \<open>A serialiser for the concrete runtime: the text of \<^verbatim>\<open>json.dumps\<close> without the
  indentation and without escapes in strings.\<close>

fun digits :: "nat \<Rightarrow> string" where
  "digits n =
     (if n < 10 then [char_of (48 + n)]
      else digits (n div 10) @ [char_of (48 + n mod 10)])"

declare digits.simps [simp del]

definition int_text :: "int \<Rightarrow> string" where
  "int_text i = (if i < 0 then CHR ''-'' # digits (nat (- i)) else digits (nat i))"

fun join :: "string \<Rightarrow> string list \<Rightarrow> string" where
  "join sep [] = []"
| "join sep [x] = x"
| "join sep (x # y # ys) = x @ sep @ join sep (y # ys)"

fun json_text :: "json \<Rightarrow> string" where
  "json_text JNull = ''null''"
| "json_text (JBool b) = (if b then ''true'' else ''false'')"
| "json_text (JInt i) = int_text i"
| "json_text (JStr s) = CHR 0x22 # s @ [CHR 0x22]"
| "json_text (JList xs) = ''['' @ join '', '' (map json_text xs) @ '']''"
| "json_text (JObj kvs) =
     ''{'' @ join '', '' (map (\<lambda>(k, v). CHR 0x22 # k @ [CHR 0x22] @ '': '' @ json_text v) kvs)
       @ ''}''"

text \<open>The concrete \<open>loads\<close> knows two documents, raises \<^verbatim>\<open>RecursionError\<close> on a line that
  opens a thousand arrays or more, as CPython does with its default recursion limit, and
  raises \<^verbatim>\<open>JSONDecodeError\<close> on everything else.\<close>

definition demo_runtime :: runtime where
  "demo_runtime =
     \<lparr>loads = (\<lambda>s. if 1000 \<le> length (takeWhile (\<lambda>c. c = CHR ''['') s)
                   then Inl (RecursionError ''maximum recursion depth exceeded'')
                   else if s = ''null'' then Inr JNull
                   else if s = ''{}'' then Inr (JObj [])
                   else Inl (JSONDecodeError ''Expecting value'')),
      dumps = json_text,
      dumps_indent = json_text,
      repr = demo_repr,
      utcnow_isoformat = ''2024-01-01T00:00:00''\<rparr>"

definition demo_w3 :: web3_client where
  "demo_w3 =
     \<lparr>is_connected = True,
      is_address = (\<lambda>a. take 2 a = ''0x'' \<and> length a = 42),
      to_checksum_address = (\<lambda>a. Inr a)\<rparr>"

definition demo_ens :: ens_client where
  "demo_ens =
     \<lparr>ens_address = (\<lambda>n kw.
         if n = ''boom.eth'' then Inl (OtherException ''connection reset'')
         else if n = ''bad..eth'' then Inl (ENSException ''invalid name'')
         else if n = ''name.eth'' \<or> n = ''vitalik.eth'' then Inr (Some ''0xd8dA'')
         else Inr None),
      ens_name_of = (\<lambda>a. Inr None),
      ens_get_text = (\<lambda>n k.
         if k = ''url'' then Inr (Some ''https://vitalik.ca'')
         else if k = ''email'' then Inr (Some [])
         else if k = ''twitter'' then Inl (OtherException ''timeout'')
         else Inr None),
      ens_owner = (\<lambda>n. Inl (OtherException ''owner lookup failed'')),
      ens_resolver = (\<lambda>n. Inr (Some (Contract (Some ''0x4976''))))\<rparr>"

definition demo_server :: server where
  "demo_server = \<lparr>rpc_url = ''http://localhost:8545'', w3 = Some demo_w3, ens = Some demo_ens\<rparr>"

section \<open>Facts about the model\<close>

subsection \<open>The constructor\<close>

text \<open>A server that \<^verbatim>\<open>__init__\<close> returned has both collaborators: the guards
  \<^verbatim>\<open>if not self.ens\<close> and \<^verbatim>\<open>if not self.w3 or not self.ens\<close> of the operations do not
  fire on it.\<close>

lemma initialize_web3_initialized:
  "initialize_web3 lib url = Inr self \<Longrightarrow> (\<exists>w. w3 self = Some w) \<and> (\<exists>e. ens self = Some e)"
  by (auto simp: initialize_web3_def split: sum.splits if_splits)

subsection \<open>Stripping and lowering\<close>

lemma of_char_below_256: "(of_char c :: nat) < 256"
  by (cases c) (simp add: of_char_Char)

lemma is_space_lower_char: "is_space (lower_char c) = is_space c"
proof -
  have b: "(of_char c :: nat) < 256" by (rule of_char_below_256)
  show ?thesis
    using b by (auto simp: is_space_def lower_char_def is_upper_def Let_def of_char_of)
qed

lemma lower_char_idem: "lower_char (lower_char c) = lower_char c"
proof -
  have b: "(of_char c :: nat) < 256" by (rule of_char_below_256)
  show ?thesis
    using b by (auto simp: lower_char_def is_upper_def Let_def)
qed

lemma strip_lower_commute: "strip (lower s) = lower (strip s)"
proof -
  have "is_space \<circ> lower_char = is_space"
    by (rule ext) (simp add: is_space_lower_char)
  then show ?thesis
    by (simp add: strip_def lower_def dropWhile_map rev_map)
qed

lemma lower_idem: "lower (lower s) = lower s"
  by (simp add: lower_def lower_char_idem)

lemma strip_idem: "strip (strip s) = strip s"
proof -
  define t where "t = dropWhile is_space s"
  define u where "u = dropWhile is_space (rev t)"
  have su: "strip s = rev u" by (simp add: strip_def t_def u_def)
  have "dropWhile is_space (rev u) = rev u"
  proof (cases "u = []")
    case True
    then show ?thesis by simp
  next
    case False
    have "rev t = takeWhile is_space (rev t) @ u" by (simp add: u_def)
    then have "t = rev u @ rev (takeWhile is_space (rev t))"
      by (metis rev_append rev_rev_ident)
    then have ht: "hd t = hd (rev u)" and "t \<noteq> []" using False
      by (metis hd_append2 rev_is_Nil_conv, metis Nil_is_append_conv rev_is_Nil_conv)
    then have "\<not> is_space (hd t)" unfolding t_def by (metis hd_dropWhile)
    then have "\<not> is_space (hd (rev u))" using ht by simp
    then show ?thesis using False by (cases "rev u") auto
  qed
  moreover have "dropWhile is_space u = u" by (simp add: u_def)
  ultimately have "strip (rev u) = rev u" by (simp add: strip_def)
  then show ?thesis by (simp add: su)
qed

lemma normalise_idem: "lower (strip (lower (strip s))) = lower (strip s)"
  by (simp add: strip_lower_commute strip_idem lower_idem)

subsection \<open>The router on a request object\<close>

text \<open>On a dict, \<^verbatim>\<open>message.get\<close> never raises, so the \<^verbatim>\<open>try\<close> block of
  \<^verbatim>\<open>handle_message\<close> reduces to its four branches.\<close>

lemma handle_message_body_obj:
  "handle_message_body rt self (JObj kvs) =
     (let method = (case map_of kvs ''method'' of None \<Rightarrow> JNull | Some v \<Rightarrow> v);
          i = (case map_of kvs ''id'' of None \<Rightarrow> JNull | Some v \<Rightarrow> v);
          params = (case map_of kvs ''params'' of None \<Rightarrow> JObj [] | Some v \<Rightarrow> v)
      in if method = JStr ''initialize'' then
           Inr (JObj [(''id'', i),
                      (''result'',
                         JObj [(''protocolVersion'', JStr ''2024-11-05''),
                               (''capabilities'',
                                  JObj [(''tools'', JObj [(''listChanged'', JBool True)])]),
                               (''serverInfo'', get_server_info)])], [])
         else if method = JStr ''tools/list'' then
           Inr (JObj [(''id'', i), (''result'', JObj [(''tools'', get_available_tools)])], [])
         else if method = JStr ''tools/call'' then
           and_then (py_get params ''name'' JNull) (\<lambda>tool_name.
           and_then (py_get params ''arguments'' (JObj [])) (\<lambda>arguments.
             Inr (JObj [(''id'', i),
                        (''result'',
                           JObj [(''content'',
                                    JList [JObj [(''type'', JStr ''text''),
                                                 (''text'',
                                                    JStr (dumps_indent rt
                                                      (fst (handle_tool_call rt self
                                                              tool_name arguments))))]])])],
                  snd (handle_tool_call rt self tool_name arguments))))
         else
           Inr (JObj [(''id'', i),
                      (''error'',
                         JObj [(''code'', JInt (- 32601)),
                               (''message'',
                                  JStr (''Method not found: '' @ py_str rt method))])], []))"
  by (simp add: handle_message_body_def and_then_def Let_def case_prod_beta split: sum.splits)

lemma handle_message_obj_shape:
  "\<exists>k v calls.
     handle_message rt self (JObj kvs) =
       Inr (JObj [(''id'', case map_of kvs ''id'' of None \<Rightarrow> JNull | Some v \<Rightarrow> v), (k, v)],
            calls)
     \<and> (k = ''result'' \<or> k = ''error'')"
  by (simp add: handle_message_def handle_message_body_obj Let_def and_then_def
        split: sum.splits)


text \<open>A parsed line that is not a dict (\<^verbatim>\<open>42\<close>, \<^verbatim>\<open>[]\<close>, \<^verbatim>\<open>null\<close>) is outside the request
  objects: \<^verbatim>\<open>message.get\<close> raises in the \<^verbatim>\<open>try\<close> block and again in the \<^verbatim>\<open>except\<close>
  clause, and \<^verbatim>\<open>run_stdio\<close> stops reading.\<close>

lemma handle_message_not_a_dict:
  "\<forall>kvs. message \<noteq> JObj kvs \<Longrightarrow>
   handle_message rt self message = Inl (no_attribute message ''get'')"
  by (cases message) (simp_all add: handle_message_def handle_message_body_def and_then_def)

text \<open>An exception of \<^verbatim>\<open>json.loads\<close> that is not a \<^verbatim>\<open>JSONDecodeError\<close> ends the loop with
  nothing printed for the line.\<close>

lemma run_stdio_loads_raises_other:
  "line \<noteq> [] \<Longrightarrow> loads rt (strip line) = Inl ex \<Longrightarrow> \<not> is_json_decode_error ex \<Longrightarrow>
   run_stdio rt self (line # rest) = []"
  by simp

lemma run_stdio_not_a_dict:
  "line \<noteq> [] \<Longrightarrow> loads rt (strip line) = Inr message \<Longrightarrow> \<forall>kvs. message \<noteq> JObj kvs \<Longrightarrow>
   run_stdio rt self (line # rest) = []"
  by (simp add: handle_message_not_a_dict)

subsection \<open>The operations\<close>

lemma resolve_envelope: "envelope_invariant (fst (resolve_ens_name rt self n c))"
  by (simp add: envelope_invariant_def resolve_ens_name_def resolve_failure_def
        resolve_except_def Let_def split: option.splits sum.splits)

lemma reverse_envelope: "envelope_invariant (fst (reverse_resolve_address rt self a))"
  by (simp add: envelope_invariant_def reverse_resolve_address_def reverse_failure_def
        reverse_except_def split: option.splits sum.splits)

lemma text_envelope: "envelope_invariant (fst (get_ens_text_record rt self n k))"
  by (simp add: envelope_invariant_def get_ens_text_record_def text_failure_def
        text_except_def split: option.splits sum.splits)

lemma info_envelope: "envelope_invariant (fst (get_ens_info rt self n))"
  by (simp add: envelope_invariant_def get_ens_info_def info_failure_def
        Let_def update_conv' split: option.splits sum.splits)

text \<open>Every result dict of an operation names its subject, under \<^verbatim>\<open>ens_name\<close> or
  \<^verbatim>\<open>address\<close>; the dict \<^verbatim>\<open>handle_tool_call\<close> builds in its \<^verbatim>\<open>except\<close> clause has
  neither key.\<close>

lemma domain_envelope_subject:
  "\<exists>fields. fst (resolve_ens_name rt self n c) = JObj fields
      \<and> map_of fields ''ens_name'' \<noteq> None"
  "\<exists>fields. fst (reverse_resolve_address rt self a) = JObj fields
      \<and> map_of fields ''address'' \<noteq> None"
  "\<exists>fields. fst (get_ens_text_record rt self n k) = JObj fields
      \<and> map_of fields ''ens_name'' \<noteq> None"
  "\<exists>fields. fst (get_ens_info rt self n) = JObj fields
      \<and> map_of fields ''ens_name'' \<noteq> None"
     apply (simp add: resolve_ens_name_def resolve_failure_def resolve_except_def Let_def
        split: option.splits sum.splits)
    apply (simp add: reverse_resolve_address_def reverse_failure_def reverse_except_def
        split: option.splits sum.splits)
   apply (simp add: get_ens_text_record_def text_failure_def text_except_def
        split: option.splits sum.splits)
  apply (simp add: get_ens_info_def info_failure_def Let_def update_conv'
        split: option.splits sum.splits)
  done

lemma tool_call_error_not_domain:
  "fst (resolve_ens_name rt self n c) \<noteq> JObj [(''success'', s), (''error'', m)]"
  "fst (reverse_resolve_address rt self a) \<noteq> JObj [(''success'', s), (''error'', m)]"
  "fst (get_ens_text_record rt self n k) \<noteq> JObj [(''success'', s), (''error'', m)]"
  "fst (get_ens_info rt self n) \<noteq> JObj [(''success'', s), (''error'', m)]"
  using domain_envelope_subject(1) [of rt self n c] domain_envelope_subject(2) [of rt self a]
    domain_envelope_subject(3) [of rt self n k] domain_envelope_subject(4) [of rt self n]
  by auto

lemma missing_key_tool_call:
  "tool \<in> set known_tools \<Longrightarrow>
   List.find (\<lambda>k. map_of args k = None) (required_keys tool) = Some k \<Longrightarrow>
   handle_tool_call rt self (JStr tool) (JObj args) =
     (JObj [(''success'', JBool False),
            (''error'', JStr (''Error handling tool call: '' @ repr rt (JStr k)))], [])"
  by (auto simp: known_tools_def required_keys_def handle_tool_call_def tool_call_except_def
        split: option.splits if_splits)

text \<open>What the loop over \<^verbatim>\<open>common_keys\<close> leaves under a key.\<close>

lemma text_records_loop_lookup:
  "map_of (text_records_loop e n keys acc) key =
     (if key \<in> set keys
      then (case ens_get_text e n key of
              Inl ex \<Rightarrow> map_of acc key
            | Inr v \<Rightarrow> if truthy v then Some (opt_json v) else map_of acc key)
      else map_of acc key)"
proof (induction keys arbitrary: acc)
  case Nil
  then show ?case by simp
next
  case (Cons k ks)
  then show ?case
    by (simp add: update_conv' split: sum.splits)
qed

text \<open>The repr of a string in the concrete runtime.\<close>

lemma demo_repr_string: "repr demo_runtime (JStr s) = quoted s"
  by (simp add: demo_runtime_def demo_repr_def)




section \<open>The claims\<close>

subsection \<open>C1: the router boundary\<close>




subsection \<open>C2: the invariant of a result dict\<close>

text \<open>
  C2. The result dict of each of the four operations, on any arguments and in any server
  state, satisfies the invariant: either \<^verbatim>\<open>success\<close> is true with no \<^verbatim>\<open>error\<close> key and with
  a \<^verbatim>\<open>timestamp\<close> key, or \<^verbatim>\<open>success\<close> is false with an \<^verbatim>\<open>error\<close> key and with no
  \<^verbatim>\<open>timestamp\<close> key.
\<close>

theorem C2_envelope_invariant:
  "envelope_invariant (fst (resolve_ens_name rt self ens_name coin_type)) \<and>
   envelope_invariant (fst (reverse_resolve_address rt self address)) \<and>
   envelope_invariant (fst (get_ens_text_record rt self ens_name key)) \<and>
   envelope_invariant (fst (get_ens_info rt self ens_name))"
  by (simp add: resolve_envelope reverse_envelope text_envelope info_envelope)

text \<open>The invariant at four concrete calls, one of them with a name that is not a string.\<close>

theorem C2_envelope_invariant_witness:
  "envelope_invariant (fst (resolve_ens_name demo_runtime demo_server (JInt 5) (JInt 60))) \<and>
   envelope_invariant (fst (reverse_resolve_address demo_runtime demo_server (JStr ''0x12''))) \<and>
   envelope_invariant
     (fst (get_ens_text_record demo_runtime demo_server (JInt 5) (JStr ''url''))) \<and>
   envelope_invariant (fst (get_ens_info demo_runtime demo_server (JInt 5)))"
  using C2_envelope_invariant
          [of demo_runtime demo_server "JInt 5" "JInt 60" "JStr ''0x12''" "JStr ''url''"]
  by simp

subsection \<open>C3: a required argument is missing\<close>

text \<open>
  C3, as the code has it. When \<^verbatim>\<open>tools/call\<close> names one of the four tools and the first
  required key that \<^verbatim>\<open>arguments\<close> lacks is \<open>k\<close>, \<^verbatim>\<open>handle_tool_call\<close> itself returns the
  dict \<^verbatim>\<open>{success: false, error: "Error handling tool call: <repr of k>"}\<close> and calls no
  collaborator. No operation ever returns that dict. The router delivers it as the text
  of a \<^verbatim>\<open>result\<close>, like a result dict of an operation; the response has no \<^verbatim>\<open>error\<close> key.
\<close>

theorem C3_missing_argument:
  "tool \<in> set known_tools \<Longrightarrow>
   List.find (\<lambda>k. map_of args k = None) (required_keys tool) = Some k \<Longrightarrow>
   err = JObj [(''success'', JBool False),
               (''error'', JStr (''Error handling tool call: '' @ repr rt (JStr k)))] \<Longrightarrow>
   handle_tool_call rt self (JStr tool) (JObj args) = (err, []) \<and>
   (\<forall>rt' self' n c. fst (resolve_ens_name rt' self' n c) \<noteq> err) \<and>
   (\<forall>rt' self' a. fst (reverse_resolve_address rt' self' a) \<noteq> err) \<and>
   (\<forall>rt' self' n key. fst (get_ens_text_record rt' self' n key) \<noteq> err) \<and>
   (\<forall>rt' self' n. fst (get_ens_info rt' self' n) \<noteq> err) \<and>
   (\<forall>kvs ps.
      map_of kvs ''method'' = Some (JStr ''tools/call'') \<longrightarrow>
      map_of kvs ''params'' = Some (JObj ps) \<longrightarrow>
      map_of ps ''name'' = Some (JStr tool) \<longrightarrow>
      (case map_of ps ''arguments'' of None \<Rightarrow> JObj [] | Some v \<Rightarrow> v) = JObj args \<longrightarrow>
      handle_message rt self (JObj kvs) =
        Inr (JObj [(''id'', case map_of kvs ''id'' of None \<Rightarrow> JNull | Some v \<Rightarrow> v),
                   (''result'',
                      JObj [(''content'',
                               JList [JObj [(''type'', JStr ''text''),
                                            (''text'', JStr (dumps_indent rt err))]])])],
             []))"
proof -
  assume t: "tool \<in> set known_tools"
    and f: "List.find (\<lambda>k. map_of args k = None) (required_keys tool) = Some k"
    and e: "err = JObj [(''success'', JBool False),
               (''error'', JStr (''Error handling tool call: '' @ repr rt (JStr k)))]"
  have call: "handle_tool_call rt self (JStr tool) (JObj args) = (err, [])"
    unfolding e by (rule missing_key_tool_call [OF t f])
  have msg: "handle_message rt self (JObj kvs) =
        Inr (JObj [(''id'', case map_of kvs ''id'' of None \<Rightarrow> JNull | Some v \<Rightarrow> v),
                   (''result'',
                      JObj [(''content'',
                               JList [JObj [(''type'', JStr ''text''),
                                            (''text'', JStr (dumps_indent rt err))]])])],
             [])"
    if "map_of kvs ''method'' = Some (JStr ''tools/call'')"
      and "map_of kvs ''params'' = Some (JObj ps)"
      and "map_of ps ''name'' = Some (JStr tool)"
      and "(case map_of ps ''arguments'' of None \<Rightarrow> JObj [] | Some v \<Rightarrow> v) = JObj args"
    for kvs ps
    using that by (simp add: handle_message_def handle_message_body_obj and_then_def call)
  show ?thesis
    using call msg by (simp add: e tool_call_error_not_domain)
qed

text \<open>\<^verbatim>\<open>get_ens_text_record\<close> called with \<^verbatim>\<open>ens_name\<close> and without \<^verbatim>\<open>key\<close>.\<close>

theorem C3_missing_argument_witness:
  "handle_tool_call demo_runtime demo_server (JStr ''get_ens_text_record'')
     (JObj [(''ens_name'', JStr ''vitalik.eth'')]) =
   (JObj [(''success'', JBool False),
          (''error'', JStr (''Error handling tool call: '' @ quoted ''key''))], [])"
proof -
  have t: "''get_ens_text_record'' \<in> set known_tools" by (simp add: known_tools_def)
  have f: "List.find (\<lambda>k. map_of [(''ens_name'', JStr ''vitalik.eth'')] k = None)
             (required_keys ''get_ens_text_record'') = Some ''key''"
    by (simp add: required_keys_def)
  show ?thesis
    using C3_missing_argument [OF t f refl, of demo_runtime demo_server]
    by (simp add: demo_repr_string)
qed

text \<open>
  C3 as stated fails: the claim classes the error with the protocol layer, whose errors
  are the \<^verbatim>\<open>error\<close> of the response. A \<^verbatim>\<open>tools/call\<close> of \<^verbatim>\<open>resolve_ens_name\<close> with empty
  \<^verbatim>\<open>arguments\<close> gets a response with a \<^verbatim>\<open>result\<close> and no \<^verbatim>\<open>error\<close>: the failure is a dict
  with \<^verbatim>\<open>success\<close> false inside the result text.
\<close>

theorem C3_result_payload_counterexample:
  "handle_message demo_runtime demo_server
     (JObj [(''id'', JInt 1), (''method'', JStr ''tools/call''),
            (''params'', JObj [(''name'', JStr ''resolve_ens_name''),
                               (''arguments'', JObj [])])]) =
   Inr (JObj [(''id'', JInt 1),
              (''result'',
                 JObj [(''content'',
                          JList [JObj [(''type'', JStr ''text''),
                                       (''text'',
                                          JStr (dumps_indent demo_runtime
                                            (JObj [(''success'', JBool False),
                                                   (''error'',
                                                      JStr (''Error handling tool call: ''
                                                            @ quoted ''ens_name''))])))]])])],
        [])"
  by (simp add: handle_message_def handle_message_body_obj and_then_def handle_tool_call_def
        tool_call_except_def demo_repr_string)

subsection \<open>C4: a line that is not JSON\<close>




subsection \<open>C5: the id of the response\<close>

text \<open>
  C5, as the code has it. The response to a request object has an \<^verbatim>\<open>id\<close> key, always:
  its value is the request's id, whatever JSON value that is, and \<^verbatim>\<open>null\<close> when the
  request has no id.
\<close>

theorem C5_id_echoed:
  "\<exists>fields calls.
     handle_message rt self (JObj kvs) = Inr (JObj fields, calls) \<and>
     map_of fields ''id'' = Some (case map_of kvs ''id'' of None \<Rightarrow> JNull | Some v \<Rightarrow> v)"
proof -
  obtain k v calls where
    "handle_message rt self (JObj kvs) =
       Inr (JObj [(''id'', case map_of kvs ''id'' of None \<Rightarrow> JNull | Some v \<Rightarrow> v), (k, v)],
            calls)"
    using handle_message_obj_shape by blast
  then show ?thesis by simp
qed

text \<open>A string id comes back as it is.\<close>

theorem C5_id_echoed_witness:
  "handle_message demo_runtime demo_server
      (JObj [(''id'', JStr ''req-7''), (''method'', JStr ''tools/list'')]) =
     Inr (JObj [(''id'', JStr ''req-7''),
                (''result'', JObj [(''tools'', get_available_tools)])], [])"
proof -
  from C5_id_echoed
         [of demo_runtime demo_server "[(''id'', JStr ''req-7''), (''method'', JStr ''tools/list'')]"]
  obtain fields calls where
    "handle_message demo_runtime demo_server
       (JObj [(''id'', JStr ''req-7''), (''method'', JStr ''tools/list'')]) =
     Inr (JObj fields, calls)"
    and "map_of fields ''id'' = Some (JStr ''req-7'')"
    by auto
  then show ?thesis
    by (simp add: handle_message_def handle_message_body_obj)
qed

text \<open>
  C5 as stated fails for a request without an id: the response is not without an
  \<^verbatim>\<open>id\<close> key, it carries \<^verbatim>\<open>"id": null\<close>.
\<close>

theorem C5_null_id_counterexample:
  "handle_message demo_runtime demo_server (JObj [(''method'', JStr ''tools/list'')]) =
     Inr (JObj [(''id'', JNull), (''result'', JObj [(''tools'', get_available_tools)])], [])"
  by (simp add: handle_message_def handle_message_body_obj)

subsection \<open>C6: an address of the wrong format\<close>

text \<open>
  C6. On a server with both collaborators, when \<^verbatim>\<open>is_address\<close> rejects the stripped
  address, \<^verbatim>\<open>reverse_resolve_address\<close> returns \<^verbatim>\<open>success\<close> false, the error
  \<^verbatim>\<open>Invalid Ethereum address format: <address>\<close> and the address, both with the stripped
  address; the only call made on a collaborator is \<^verbatim>\<open>is_address\<close>, so neither the
  checksum conversion nor the reverse lookup \<^verbatim>\<open>ens.name\<close> is called.
\<close>

theorem C6_invalid_address:
  "w3 self = Some w \<Longrightarrow> ens self = Some e \<Longrightarrow> \<not> is_address w (strip address) \<Longrightarrow>
   reverse_resolve_address rt self (JStr address) =
     (JObj [(''success'', JBool False),
            (''error'', JStr (''Invalid Ethereum address format: '' @ strip address)),
            (''address'', JStr (strip address))],
      [IsAddress (strip address)])"
  by (simp add: reverse_resolve_address_def reverse_failure_def)

text \<open>The scenario of the specification.\<close>

theorem C6_invalid_address_witness:
  "reverse_resolve_address demo_runtime demo_server (JStr ''not-an-address'') =
     (JObj [(''success'', JBool False),
            (''error'', JStr ''Invalid Ethereum address format: not-an-address''),
            (''address'', JStr ''not-an-address'')],
      [IsAddress ''not-an-address''])"
proof -
  have s: "strip ''not-an-address'' = ''not-an-address''"
    by (simp add: strip_def is_space_def)
  have a: "w3 demo_server = Some demo_w3" and b: "ens demo_server = Some demo_ens"
    by (simp_all add: demo_server_def)
  have c: "\<not> is_address demo_w3 (strip ''not-an-address'')"
    unfolding s by (simp add: demo_w3_def)
  show ?thesis
    using C6_invalid_address [OF a b c, of demo_runtime] unfolding s by simp
qed

subsection \<open>C7: the sub-lookups of \<^verbatim>\<open>get_ens_info\<close>\<close>

text \<open>
  C7. On a server with the ENS collaborator and for a name that is a string,
  \<^verbatim>\<open>get_ens_info\<close> makes all ten lookups (address, owner, resolver and the seven text
  records) on the normalised name and returns \<^verbatim>\<open>success\<close> true with no \<^verbatim>\<open>error\<close>. Each of
  \<^verbatim>\<open>address\<close>, \<^verbatim>\<open>owner\<close> and \<^verbatim>\<open>resolver\<close> depends on its own lookup only and is \<^verbatim>\<open>null\<close>
  when that lookup raises. \<^verbatim>\<open>text_records\<close> has a key exactly when it is one of the seven
  keys and its lookup returned a value that is not empty.
\<close>

theorem C7_independent_lookups:
  "ens self = Some e \<Longrightarrow> n = lower (strip ens_name) \<Longrightarrow>
   \<exists>fields text_records.
     get_ens_info rt self (JStr ens_name) =
       (JObj fields,
        [EnsAddress n None, EnsOwner n, EnsResolver n] @ map (EnsGetText n) common_keys) \<and>
     map_of fields ''success'' = Some (JBool True) \<and>
     map_of fields ''error'' = None \<and>
     map_of fields ''ens_name'' = Some (JStr n) \<and>
     map_of fields ''address'' =
       Some (case ens_address e n None of Inl ex \<Rightarrow> JNull | Inr a \<Rightarrow> opt_json a) \<and>
     map_of fields ''owner'' =
       Some (case ens_owner e n of Inl ex \<Rightarrow> JNull | Inr a \<Rightarrow> opt_json a) \<and>
     map_of fields ''resolver'' =
       Some (case ens_resolver e n of Inl ex \<Rightarrow> JNull | Inr r \<Rightarrow> resolver_address r) \<and>
     map_of fields ''text_records'' = Some (JObj text_records) \<and>
     (\<forall>key. map_of text_records key =
        (if key \<in> set common_keys
         then (case ens_get_text e n key of
                 Inl ex \<Rightarrow> None
               | Inr v \<Rightarrow> if truthy v then Some (opt_json v) else None)
         else None))"
  by (auto simp: get_ens_info_def Let_def update_conv' text_records_loop_lookup
        split: sum.splits)

text \<open>The scenario of the specification: the owner lookup raises, the text record
  \<^verbatim>\<open>email\<close> is empty and the lookup of \<^verbatim>\<open>twitter\<close> raises.\<close>

theorem C7_independent_lookups_witness:
  "get_ens_info demo_runtime demo_server (JStr ''vitalik.eth'') =
     (JObj [(''success'', JBool True), (''ens_name'', JStr ''vitalik.eth''),
            (''timestamp'', JStr ''2024-01-01T00:00:00''),
            (''address'', JStr ''0xd8dA''), (''owner'', JNull),
            (''resolver'', JStr ''0x4976''),
            (''text_records'', JObj [(''url'', JStr ''https://vitalik.ca'')])],
      [EnsAddress ''vitalik.eth'' None, EnsOwner ''vitalik.eth'', EnsResolver ''vitalik.eth'',
       EnsGetText ''vitalik.eth'' ''url'', EnsGetText ''vitalik.eth'' ''email'',
       EnsGetText ''vitalik.eth'' ''twitter'', EnsGetText ''vitalik.eth'' ''github'',
       EnsGetText ''vitalik.eth'' ''discord'', EnsGetText ''vitalik.eth'' ''telegram'',
       EnsGetText ''vitalik.eth'' ''description''])"
proof -
  have n: "''vitalik.eth'' = lower (strip ''vitalik.eth'')" by code_simp
  have b: "ens demo_server = Some demo_ens" by (simp add: demo_server_def)
  have l: "text_records_loop demo_ens ''vitalik.eth'' common_keys [] =
             [(''url'', JStr ''https://vitalik.ca'')]"
    by (simp add: common_keys_def demo_ens_def truthy_def opt_json_def)
  have v: "get_ens_info demo_runtime demo_server (JStr ''vitalik.eth'') =
     (JObj [(''success'', JBool True), (''ens_name'', JStr ''vitalik.eth''),
            (''timestamp'', JStr ''2024-01-01T00:00:00''),
            (''address'', JStr ''0xd8dA''), (''owner'', JNull),
            (''resolver'', JStr ''0x4976''),
            (''text_records'', JObj [(''url'', JStr ''https://vitalik.ca'')])],
      [EnsAddress ''vitalik.eth'' None, EnsOwner ''vitalik.eth'', EnsResolver ''vitalik.eth'']
        @ map (EnsGetText ''vitalik.eth'') common_keys)"
  proof -
    have a1: "ens_address demo_ens ''vitalik.eth'' None = Inr (Some ''0xd8dA'')"
      and a2: "ens_owner demo_ens ''vitalik.eth'' = Inl (OtherException ''owner lookup failed'')"
      and a3: "ens_resolver demo_ens ''vitalik.eth'' = Inr (Some (Contract (Some ''0x4976'')))"
      by (simp_all add: demo_ens_def)
    have ts: "utcnow_isoformat demo_runtime = ''2024-01-01T00:00:00''"
      by (simp add: demo_runtime_def)
    show ?thesis
      by (simp add: get_ens_info_def b Let_def l a1 a2 a3 ts opt_json_def n [symmetric])
  qed
  from C7_independent_lookups [OF b n, of demo_runtime] obtain fields where
    "get_ens_info demo_runtime demo_server (JStr ''vitalik.eth'') =
       (JObj fields,
        [EnsAddress ''vitalik.eth'' None, EnsOwner ''vitalik.eth'', EnsResolver ''vitalik.eth'']
          @ map (EnsGetText ''vitalik.eth'') common_keys)"
    by blast
  with v show ?thesis by (simp add: common_keys_def)
qed

subsection \<open>C8: a text record\<close>

text \<open>
  C8. On a server with the ENS collaborator and for a name and a key that are strings,
  \<^verbatim>\<open>get_ens_text_record\<close> looks up the normalised key of the normalised name. Whatever the
  collaborator returns, a value or \<^verbatim>\<open>None\<close>, the result has \<^verbatim>\<open>success\<close> true with
  \<^verbatim>\<open>ens_name\<close>, \<^verbatim>\<open>key\<close> and \<^verbatim>\<open>value\<close>; the result has \<^verbatim>\<open>success\<close> false only when the
  collaborator raises.
\<close>

theorem C8_text_record:
  "ens self = Some e \<Longrightarrow> n = lower (strip ens_name) \<Longrightarrow> k = lower (strip key) \<Longrightarrow>
   (\<forall>v. ens_get_text e n k = Inr v \<longrightarrow>
      get_ens_text_record rt self (JStr ens_name) (JStr key) =
        (JObj [(''success'', JBool True), (''ens_name'', JStr n), (''key'', JStr k),
               (''value'', opt_json v), (''timestamp'', JStr (utcnow_isoformat rt))],
         [EnsGetText n k])) \<and>
   (\<forall>ex. ens_get_text e n k = Inl ex \<longrightarrow>
      get_ens_text_record rt self (JStr ens_name) (JStr key) =
        (JObj [(''success'', JBool False),
               (''error'', JStr (''Error getting text record: '' @ exn_str rt ex)),
               (''ens_name'', JStr n), (''key'', JStr k)],
         [EnsGetText n k]))"
  by (simp add: get_ens_text_record_def text_except_def text_failure_def)

text \<open>A key the collaborator has no value for: \<^verbatim>\<open>success\<close> is true and \<^verbatim>\<open>value\<close> is
  \<^verbatim>\<open>null\<close>.\<close>

theorem C8_text_record_witness:
  "get_ens_text_record demo_runtime demo_server (JStr ''vitalik.eth'') (JStr '' GitHub '') =
     (JObj [(''success'', JBool True), (''ens_name'', JStr ''vitalik.eth''),
            (''key'', JStr ''github''), (''value'', JNull),
            (''timestamp'', JStr ''2024-01-01T00:00:00'')],
      [EnsGetText ''vitalik.eth'' ''github''])"
proof -
  have n: "''vitalik.eth'' = lower (strip ''vitalik.eth'')" by code_simp
  have k: "''github'' = lower (strip '' GitHub '')" by code_simp
  have b: "ens demo_server = Some demo_ens" by (simp add: demo_server_def)
  have g: "ens_get_text demo_ens ''vitalik.eth'' ''github'' = Inr None"
    by (simp add: demo_ens_def)
  from C8_text_record [OF b n k, of demo_runtime]
  have "\<forall>v. ens_get_text demo_ens ''vitalik.eth'' ''github'' = Inr v \<longrightarrow>
      get_ens_text_record demo_runtime demo_server (JStr ''vitalik.eth'') (JStr '' GitHub '') =
        (JObj [(''success'', JBool True), (''ens_name'', JStr ''vitalik.eth''),
               (''key'', JStr ''github''), (''value'', opt_json v),
               (''timestamp'', JStr (utcnow_isoformat demo_runtime))],
         [EnsGetText ''vitalik.eth'' ''github''])"
    by (elim conjE)
  from this [rule_format, OF g] show ?thesis
    by (simp add: opt_json_def demo_runtime_def)
qed

subsection \<open>C9: normalising the name\<close>

text \<open>
  C9. On a server with the ENS collaborator, \<^verbatim>\<open>resolve_ens_name\<close> returns the same result
  dict, and makes the same call, for a name and for that name stripped and lowered, with
  the same coin type and the same clock reading.
\<close>

theorem C9_name_normalised:
  "ens self = Some e \<Longrightarrow>
   resolve_ens_name rt self (JStr (lower (strip ens_name))) coin_type =
     resolve_ens_name rt self (JStr ens_name) coin_type"
  by (simp add: resolve_ens_name_def normalise_idem)

text \<open>The instance of the specification.\<close>

theorem C9_name_normalised_witness:
  "resolve_ens_name demo_runtime demo_server (JStr ''name.eth'') (JInt 60) =
     resolve_ens_name demo_runtime demo_server (JStr '' Name.ETH '') (JInt 60)"
proof -
  have n: "lower (strip '' Name.ETH '') = ''name.eth''" by code_simp
  have b: "ens demo_server = Some demo_ens" by (simp add: demo_server_def)
  show ?thesis
    using C9_name_normalised [OF b, of demo_runtime "'' Name.ETH ''" "JInt 60"]
    unfolding n .
qed

subsection \<open>C10: an unknown method\<close>

text \<open>
  C10. When the \<^verbatim>\<open>method\<close> of a request object is none of \<^verbatim>\<open>initialize\<close>,
  \<^verbatim>\<open>tools/list\<close> and \<^verbatim>\<open>tools/call\<close>, the response is the id together with the error
  of code -32601 and message \<^verbatim>\<open>Method not found: <method>\<close>; it has no \<^verbatim>\<open>result\<close> key.
  The method is printed by \<open>py_str\<close>: a string as it is, a missing method as the repr of
  \<^verbatim>\<open>None\<close>.
\<close>

theorem C10_method_not_found:
  "method = (case map_of kvs ''method'' of None \<Rightarrow> JNull | Some v \<Rightarrow> v) \<Longrightarrow>
   method \<noteq> JStr ''initialize'' \<Longrightarrow> method \<noteq> JStr ''tools/list'' \<Longrightarrow>
   method \<noteq> JStr ''tools/call'' \<Longrightarrow>
   handle_message rt self (JObj kvs) =
     Inr (JObj [(''id'', case map_of kvs ''id'' of None \<Rightarrow> JNull | Some v \<Rightarrow> v),
                (''error'',
                   JObj [(''code'', JInt (- 32601)),
                         (''message'', JStr (''Method not found: '' @ py_str rt method))])],
          [])"
  by (simp add: handle_message_def handle_message_body_obj Let_def)

text \<open>A method the server does not have.\<close>

theorem C10_method_not_found_witness:
  "handle_message demo_runtime demo_server
     (JObj [(''id'', JInt 3), (''method'', JStr ''resources/list'')]) =
   Inr (JObj [(''id'', JInt 3),
              (''error'',
                 JObj [(''code'', JInt (- 32601)),
                       (''message'', JStr ''Method not found: resources/list'')])], [])"
  using C10_method_not_found
          [of "JStr ''resources/list''" "[(''id'', JInt 3), (''method'', JStr ''resources/list'')]"
              demo_runtime demo_server]
  by simp

end
